theory Spec2Isabelle
  imports Complex_Main
begin

section \<open>JavaScript numbers\<close>

text \<open>
  A JavaScript \<^verbatim>\<open>number\<close> is either finite, one of the two infinities, or NaN.
  The finite doubles are represented by the real numbers they denote. The result of an
  arithmetic operation or of a conversion is rounded as far as the range goes: a result
  at or beyond \<open>maxRound\<close>, the midpoint between the largest double and \<open>2 ^ 1024\<close>,
  is an infinity, and a result of magnitude at most \<open>minRound\<close>, half the smallest
  positive double, is zero. Rounding to the nearest double inside the range and the
  sign of zero are not represented.
\<close>

datatype jsnum = Fin real | PInf | NInf | NaN

definition maxRound :: real where
  "maxRound = 2 ^ 1024 - 2 ^ 970"

definition minRound :: real where
  "minRound = 1 / 2 ^ 1075"

definition roundMV :: "real \<Rightarrow> jsnum" where
  "roundMV r =
     (if maxRound \<le> r then PInf
      else if r \<le> - maxRound then NInf
      else if \<bar>r\<bar> \<le> minRound then Fin 0
      else Fin r)"

text \<open>\<^verbatim>\<open>Number.isFinite\<close>.\<close>

fun isFinite :: "jsnum \<Rightarrow> bool" where
  "isFinite (Fin r) = True"
| "isFinite PInf = False"
| "isFinite NInf = False"
| "isFinite NaN = False"

text \<open>The relational operator \<^verbatim>\<open>a > b\<close>: false as soon as one side is NaN.\<close>

fun js_gt :: "jsnum \<Rightarrow> jsnum \<Rightarrow> bool" where
  "js_gt NaN b = False"
| "js_gt a NaN = False"
| "js_gt (Fin a) (Fin b) = (b < a)"
| "js_gt (Fin a) PInf = False"
| "js_gt (Fin a) NInf = True"
| "js_gt PInf PInf = False"
| "js_gt PInf b = True"
| "js_gt NInf b = False"

text \<open>Unary minus.\<close>

fun js_neg :: "jsnum \<Rightarrow> jsnum" where
  "js_neg (Fin r) = Fin (- r)"
| "js_neg PInf = NInf"
| "js_neg NInf = PInf"
| "js_neg NaN = NaN"

text \<open>
  The operator \<^verbatim>\<open>a * b\<close>: NaN is contagious, infinity times zero is NaN, the
  sign of an infinite product is the product of the signs, and a finite product is
  rounded.
\<close>

fun js_mul :: "jsnum \<Rightarrow> jsnum \<Rightarrow> jsnum" where
  "js_mul NaN b = NaN"
| "js_mul a NaN = NaN"
| "js_mul (Fin a) (Fin b) = roundMV (a * b)"
| "js_mul (Fin a) PInf = (if a = 0 then NaN else if 0 < a then PInf else NInf)"
| "js_mul (Fin a) NInf = (if a = 0 then NaN else if 0 < a then NInf else PInf)"
| "js_mul PInf (Fin b) = (if b = 0 then NaN else if 0 < b then PInf else NInf)"
| "js_mul NInf (Fin b) = (if b = 0 then NaN else if 0 < b then NInf else PInf)"
| "js_mul PInf PInf = PInf"
| "js_mul PInf NInf = NInf"
| "js_mul NInf PInf = NInf"
| "js_mul NInf NInf = PInf"

text \<open>
  The operator \<^verbatim>\<open>a / b\<close>: a non-zero finite number divided by zero is an infinity,
  zero by zero and infinity by infinity are NaN, a finite number by an infinity is zero,
  and a finite quotient is rounded.
\<close>

fun js_div :: "jsnum \<Rightarrow> jsnum \<Rightarrow> jsnum" where
  "js_div NaN b = NaN"
| "js_div a NaN = NaN"
| "js_div (Fin a) (Fin b) =
     (if b = 0 then (if a = 0 then NaN else if 0 < a then PInf else NInf)
      else roundMV (a / b))"
| "js_div (Fin a) PInf = Fin 0"
| "js_div (Fin a) NInf = Fin 0"
| "js_div PInf (Fin b) = (if 0 \<le> b then PInf else NInf)"
| "js_div NInf (Fin b) = (if 0 \<le> b then NInf else PInf)"
| "js_div PInf b = NaN"
| "js_div NInf b = NaN"

text \<open>
  \<^verbatim>\<open>Math.sqrt\<close>: NaN on a negative argument. The square root of a double is
  inside the range.
\<close>

fun js_sqrt :: "jsnum \<Rightarrow> jsnum" where
  "js_sqrt (Fin r) = (if r < 0 then NaN else Fin (sqrt r))"
| "js_sqrt PInf = PInf"
| "js_sqrt NInf = NaN"
| "js_sqrt NaN = NaN"

section \<open>The conversion \<^verbatim>\<open>Number(value)\<close> of a string\<close>

text \<open>
  \<^verbatim>\<open>Number\<close> applied to a string strips white space and line terminators at both
  ends; the empty rest is 0; the rest is otherwise read as \<^verbatim>\<open>Infinity\<close> with an
  optional sign, as a signed decimal literal with optional fraction and exponent, or as
  an unsigned binary, octal or hexadecimal integer literal; anything else is NaN. The
  value of a literal is rounded as every result is. Texts are ASCII, so that the white
  space stripped is the ASCII white space.
\<close>

definition isStrWhiteSpaceChar :: "char \<Rightarrow> bool" where
  "isStrWhiteSpaceChar c =
     (c \<in> set [CHR 0x09, CHR 0x0A, CHR 0x0B, CHR 0x0C, CHR 0x0D, CHR 0x20])"

definition trimString :: "string \<Rightarrow> string" where
  "trimString s =
     rev (dropWhile isStrWhiteSpaceChar (rev (dropWhile isStrWhiteSpaceChar s)))"

definition digitValue :: "char \<Rightarrow> nat" where
  "digitValue c =
     (let n = (of_char c :: nat)
      in if 48 \<le> n \<and> n \<le> 57 then n - 48
         else if 97 \<le> n \<and> n \<le> 102 then n - 87
         else n - 55)"

definition isDigit :: "nat \<Rightarrow> char \<Rightarrow> bool" where
  "isDigit radix c =
     (let n = (of_char c :: nat)
      in ((48 \<le> n \<and> n \<le> 57) \<or> (97 \<le> n \<and> n \<le> 102) \<or> (65 \<le> n \<and> n \<le> 70))
         \<and> digitValue c < radix)"

definition digitsValue :: "nat \<Rightarrow> string \<Rightarrow> nat" where
  "digitsValue radix ds = foldl (\<lambda>acc c. acc * radix + digitValue c) 0 ds"

text \<open>
  The exponent part of a decimal literal: absent, or \<^verbatim>\<open>e\<close>/\<^verbatim>\<open>E\<close>, an optional
  sign and at least one digit.
\<close>

definition exponentPart :: "string \<Rightarrow> int option" where
  "exponentPart t =
     (case t of
        [] \<Rightarrow> Some 0
      | c # r \<Rightarrow>
          if c = CHR ''e'' \<or> c = CHR ''E'' then
            (let neg = (r \<noteq> [] \<and> hd r = CHR ''-'');
                 ds = (if r \<noteq> [] \<and> (hd r = CHR ''-'' \<or> hd r = CHR ''+'') then tl r else r)
             in if ds \<noteq> [] \<and> list_all (isDigit 10) ds
                then Some (if neg then - int (digitsValue 10 ds) else int (digitsValue 10 ds))
                else None)
          else None)"

definition unsignedDecimal :: "string \<Rightarrow> jsnum" where
  "unsignedDecimal s =
     (if s = ''Infinity'' then PInf
      else
        let ip = takeWhile (isDigit 10) s;
            r1 = dropWhile (isDigit 10) s;
            hasDot = (r1 \<noteq> [] \<and> hd r1 = CHR ''.'');
            fp = (if hasDot then takeWhile (isDigit 10) (tl r1) else []);
            r2 = (if hasDot then dropWhile (isDigit 10) (tl r1) else r1)
        in if ip = [] \<and> fp = [] then NaN
           else case exponentPart r2 of
                  None \<Rightarrow> NaN
                | Some e \<Rightarrow>
                    roundMV ((real (digitsValue 10 ip)
                               + real (digitsValue 10 fp) / 10 ^ length fp)
                             * (if 0 \<le> e then 10 ^ nat e else 1 / 10 ^ nat (- e))))"

definition nonDecimal :: "nat \<Rightarrow> string \<Rightarrow> jsnum" where
  "nonDecimal radix ds =
     (if ds \<noteq> [] \<and> list_all (isDigit radix) ds
      then roundMV (real (digitsValue radix ds)) else NaN)"

definition StringToNumber :: "string \<Rightarrow> jsnum" where
  "StringToNumber s =
     (let t = trimString s
      in case t of
           [] \<Rightarrow> Fin 0
         | c # r \<Rightarrow>
             if c = CHR ''0'' \<and> r \<noteq> [] \<and> (hd r = CHR ''x'' \<or> hd r = CHR ''X'')
               then nonDecimal 16 (tl r)
             else if c = CHR ''0'' \<and> r \<noteq> [] \<and> (hd r = CHR ''o'' \<or> hd r = CHR ''O'')
               then nonDecimal 8 (tl r)
             else if c = CHR ''0'' \<and> r \<noteq> [] \<and> (hd r = CHR ''b'' \<or> hd r = CHR ''B'')
               then nonDecimal 2 (tl r)
             else if c = CHR ''-'' then js_neg (unsignedDecimal r)
             else if c = CHR ''+'' then unsignedDecimal r
             else unsignedDecimal t)"

text \<open>
  A property read of a row yields a string or \<^verbatim>\<open>undefined\<close> (\<open>None\<close>);
  \<^verbatim>\<open>Number(undefined)\<close> is NaN and \<^verbatim>\<open>String(undefined)\<close> is the text
  \<^verbatim>\<open>undefined\<close>.
\<close>

definition Number :: "string option \<Rightarrow> jsnum" where
  "Number v = (case v of None \<Rightarrow> NaN | Some s \<Rightarrow> StringToNumber s)"

definition String :: "string option \<Rightarrow> string" where
  "String v = (case v of None \<Rightarrow> ''undefined'' | Some s \<Rightarrow> s)"

section \<open>Parsing a feature cell and resolving kernel options\<close>

definition parseFeatureValue :: "string option \<Rightarrow> jsnum" where
  "parseFeatureValue v = (let parsed = Number v in if isFinite parsed then parsed else NaN)"

datatype KernelKey = LINEAR | POLY | RBF | SIGMOID

datatype SVMKernel = K_linear | K_polynomial | K_rbf | K_sigmoid

fun KERNEL_MAP :: "KernelKey \<Rightarrow> SVMKernel" where
  "KERNEL_MAP LINEAR = K_linear"
| "KERNEL_MAP POLY = K_polynomial"
| "KERNEL_MAP RBF = K_rbf"
| "KERNEL_MAP SIGMOID = K_sigmoid"

text \<open>
  The three shapes of the options object \<^verbatim>\<open>resolveKernelOptions\<close> returns; the
  linear kernel has none (\<^verbatim>\<open>undefined\<close>, here \<open>None\<close>).
\<close>

datatype KernelOptions =
    RbfOptions (sigma: jsnum)
  | PolynomialOptions (degree: jsnum) (poly_constant: jsnum) (poly_multiplier: jsnum)
  | SigmoidOptions (sig_constant: jsnum) (sig_multiplier: jsnum)

text \<open>
  The dimension is the length of a feature vector, a natural number; gamma is a number
  or \<^verbatim>\<open>null\<close>, and \<^verbatim>\<open>??\<close> replaces only \<^verbatim>\<open>null\<close>.
\<close>

definition effectiveGamma :: "jsnum option \<Rightarrow> nat \<Rightarrow> jsnum" where
  "effectiveGamma gammaValue dimension =
     (case gammaValue of
        Some g \<Rightarrow> g
      | None \<Rightarrow> js_div (Fin 1) (Fin (real (max 1 dimension))))"

fun resolveKernelOptions :: "KernelKey \<Rightarrow> jsnum option \<Rightarrow> nat \<Rightarrow> KernelOptions option" where
  "resolveKernelOptions RBF gammaValue dimension =
     Some (RbfOptions
       (js_sqrt (js_div (Fin 1) (js_mul (Fin 2) (effectiveGamma gammaValue dimension)))))"
| "resolveKernelOptions POLY gammaValue dimension =
     Some (PolynomialOptions (Fin 3) (Fin 1) (Fin 1))"
| "resolveKernelOptions SIGMOID gammaValue dimension =
     Some (SigmoidOptions (Fin 1) (Fin 1))"
| "resolveKernelOptions LINEAR gammaValue dimension = None"

section \<open>Session state and the classifier library\<close>

text \<open>
  A parsed row maps column names to cell texts; the read of a name that is no column of
  the row is \<^verbatim>\<open>undefined\<close>, names inherited from the prototype of the row object
  not being represented. A thrown value is an \<^verbatim>\<open>Error\<close> carrying its message, or
  some other value (the handlers test \<^verbatim>\<open>error instanceof Error\<close>).
\<close>

type_synonym ParsedRow = "string \<rightharpoonup> string"

datatype thrown = Error (message: string) | NonError

record 'svm TrainedModel =
  label :: string
  svm :: 'svm

text \<open>The options object handed to \<^verbatim>\<open>new SVM\<close>; an absent property is \<open>None\<close>.\<close>

record SVMOptions =
  opt_C :: jsnum
  opt_tol :: jsnum
  opt_maxPasses :: jsnum
  opt_maxIterations :: jsnum
  opt_kernel :: SVMKernel
  opt_kernelOptions :: "KernelOptions option"

text \<open>
  The class \<^verbatim>\<open>SVM\<close> of the package ml-svm is known by its declaration only. It is
  a parameter of the model: \<open>train\<close> stands for \<^verbatim>\<open>new SVM(options)\<close> followed by
  \<^verbatim>\<open>svm.train(features, labels)\<close> and yields the trained instance or the value
  thrown; \<open>marginOne\<close> and \<open>predictOne\<close> are the two queries of an instance, which
  return a number as they are declared to.
\<close>

record 'svm SVMLibrary =
  train :: "SVMOptions \<Rightarrow> jsnum list list \<Rightarrow> jsnum list \<Rightarrow> thrown + 'svm"
  marginOne :: "'svm \<Rightarrow> jsnum list \<Rightarrow> jsnum"
  predictOne :: "'svm \<Rightarrow> jsnum list \<Rightarrow> jsnum"

text \<open>The state variables of the component \<^verbatim>\<open>Home\<close>.\<close>

record 'svm state =
  parsedRows :: "ParsedRow list"
  columns :: "string list"
  labelColumn :: string
  featureColumns :: "string list"
  status :: string
  trainingAccuracy :: "jsnum option"
  models :: "'svm TrainedModel list option"
  predictionInput :: "string \<rightharpoonup> string"
  prediction :: string
  trainingError :: "string option"
  gamma :: "jsnum option"
  cost :: jsnum
  kernel :: KernelKey

definition initialState :: "'svm state" where
  "initialState =
     \<lparr>parsedRows = [], columns = [], labelColumn = [], featureColumns = [],
      status = ''Ready for dataset'', trainingAccuracy = None, models = None,
      predictionInput = Map.empty, prediction = [], trainingError = None,
      gamma = None, cost = Fin 1, kernel = RBF\<rparr>"


section \<open>Feature extraction\<close>

text \<open>
  The callback mapped over the feature columns of one row: it throws at the first cell,
  from the left, that is not a finite number.
\<close>

fun featureVector :: "ParsedRow \<Rightarrow> string list \<Rightarrow> thrown + jsnum list" where
  "featureVector row [] = Inr []"
| "featureVector row (column # cs) =
     (let v = parseFeatureValue (row column)
      in if \<not> isFinite v then
           Inl (Error (''Column \"'' @ column @ ''\" contains non-numeric values.''))
         else
           (case featureVector row cs of
              Inl e \<Rightarrow> Inl e
            | Inr vs \<Rightarrow> Inr (v # vs)))"

text \<open>The loop over the rows, with the two arrays it appends to.\<close>

fun extractRows ::
  "string list \<Rightarrow> string \<Rightarrow> ParsedRow list \<Rightarrow> jsnum list list \<times> string list
     \<Rightarrow> thrown + jsnum list list \<times> string list" where
  "extractRows fcs lc [] (features, labels) = Inr (features, labels)"
| "extractRows fcs lc (row # rows) (features, labels) =
     (case featureVector row fcs of
        Inl e \<Rightarrow> Inl e
      | Inr fv \<Rightarrow> extractRows fcs lc rows (features @ [fv], labels @ [String (row lc)]))"

definition computeFeaturesAndLabels ::
  "'svm state \<Rightarrow> thrown + jsnum list list \<times> string list" where
  "computeFeaturesAndLabels s =
     (if parsedRows s = [] \<or> featureColumns s = [] \<or> labelColumn s = []
      then Inl (Error ''Dataset, features, or label configuration missing.'')
      else extractRows (featureColumns s) (labelColumn s) (parsedRows s) ([], []))"

section \<open>The decision loop\<close>

text \<open>
  The score of one trained model on a vector: its margin when finite, otherwise its
  predicted class code.
\<close>

definition score :: "'svm SVMLibrary \<Rightarrow> jsnum list \<Rightarrow> 'svm TrainedModel \<Rightarrow> jsnum" where
  "score lib vector m =
     (let margin = marginOne lib (svm m) vector
      in if isFinite margin then margin else predictOne lib (svm m) vector)"

text \<open>
  The loop over the models with its two variables \<^verbatim>\<open>bestLabel\<close> and
  \<^verbatim>\<open>bestScore\<close>. The same loop is written out in \<^verbatim>\<open>trainModel\<close> and in
  \<^verbatim>\<open>handlePredict\<close>.
\<close>

fun decisionLoop ::
  "'svm SVMLibrary \<Rightarrow> jsnum list \<Rightarrow> 'svm TrainedModel list \<Rightarrow> string \<times> jsnum
     \<Rightarrow> string \<times> jsnum" where
  "decisionLoop lib vector [] (bestLabel, bestScore) = (bestLabel, bestScore)"
| "decisionLoop lib vector (m # ms) (bestLabel, bestScore) =
     (if js_gt (score lib vector m) bestScore
      then decisionLoop lib vector ms (label m, score lib vector m)
      else decisionLoop lib vector ms (bestLabel, bestScore))"

definition decideLabel :: "'svm SVMLibrary \<Rightarrow> 'svm TrainedModel list \<Rightarrow> jsnum list \<Rightarrow> string" where
  "decideLabel lib ms vector = fst (decisionLoop lib vector ms ([], NInf))"

section \<open>Training\<close>

text \<open>
  \<^verbatim>\<open>Array.from(new Set(labels))\<close>: a set keeps its elements in insertion order and
  adding a present element changes nothing.
\<close>

definition set_add :: "'a list \<Rightarrow> 'a \<Rightarrow> 'a list" where
  "set_add acc x = (if x \<in> set acc then acc else acc @ [x])"

definition uniqueLabels :: "'a list \<Rightarrow> 'a list" where
  "uniqueLabels labels = foldl set_add [] labels"

definition binaryLabels :: "string list \<Rightarrow> string \<Rightarrow> jsnum list" where
  "binaryLabels labels targetLabel =
     map (\<lambda>v. if v = targetLabel then Fin 1 else Fin (- 1)) labels"

definition svmOptions :: "'svm state \<Rightarrow> nat \<Rightarrow> SVMOptions" where
  "svmOptions s dimension =
     \<lparr>opt_C = cost s, opt_tol = Fin (1 / 10000), opt_maxPasses = Fin 10,
      opt_maxIterations = Fin 10000, opt_kernel = KERNEL_MAP (kernel s),
      opt_kernelOptions = resolveKernelOptions (kernel s) (gamma s) dimension\<rparr>"

text \<open>
  The loop of the timer callback over the unique labels; \<open>trained\<close> is the local
  array \<^verbatim>\<open>trainedModels\<close>. A throw of the library ends the loop.
\<close>

fun trainLoop ::
  "'svm SVMLibrary \<Rightarrow> SVMOptions \<Rightarrow> jsnum list list \<Rightarrow> string list \<Rightarrow> string list
     \<Rightarrow> 'svm TrainedModel list \<Rightarrow> thrown + 'svm TrainedModel list" where
  "trainLoop lib opts features labels [] trained = Inr trained"
| "trainLoop lib opts features labels (targetLabel # rest) trained =
     (case train lib opts features (binaryLabels labels targetLabel) of
        Inl e \<Rightarrow> Inl e
      | Inr h \<Rightarrow>
          trainLoop lib opts features labels rest
            (trained @ [\<lparr>label = targetLabel, svm = h\<rparr>]))"

text \<open>The \<^verbatim>\<open>catch\<close> block of \<^verbatim>\<open>trainModel\<close>.\<close>

definition trainFailed :: "thrown \<Rightarrow> 'svm state \<Rightarrow> 'svm state" where
  "trainFailed e s =
     s\<lparr>status := ''Training failed'',
       trainingError :=
         Some (case e of Error m \<Rightarrow> m | NonError \<Rightarrow> ''Training failed unexpectedly.''),
       models := None\<rparr>"

text \<open>
  The reduction counting the predictions equal to the label at the same index.
\<close>

definition countCorrect :: "string list \<Rightarrow> string list \<Rightarrow> nat" where
  "countCorrect predictions labels =
     foldl (\<lambda>count (v, index).
              count + (if index < length labels \<and> v = labels ! index then 1 else 0))
       0 (zip predictions [0..<length predictions])"

text \<open>
  \<^verbatim>\<open>trainModel\<close> is an asynchronous function. It awaits a promise whose executor
  only starts a timer; the timer callback runs the training loop and then resolves the
  promise. A value thrown inside the callback is thrown outside the \<^verbatim>\<open>try\<close> block
  and outside the executor: the promise is neither resolved nor rejected, and the
  function never runs past its \<^verbatim>\<open>await\<close>. The outcome \<open>Settled\<close> is a run that
  reached its end, \<open>Pending\<close> one that stays at the \<^verbatim>\<open>await\<close> for ever; both carry
  the state the run leaves. The status text set before the \<^verbatim>\<open>await\<close> ends with the
  character U+2026, written here as its three UTF-8 bytes.
\<close>

datatype 'a run = Settled 'a | Pending 'a

definition trainingStatus :: string where
  "trainingStatus = ''Training'' @ [CHR 0xE2, CHR 0x80, CHR 0xA6]"

definition trainModel :: "'svm SVMLibrary \<Rightarrow> 'svm state \<Rightarrow> 'svm state run" where
  "trainModel lib s =
     (case computeFeaturesAndLabels s of
        Inl e \<Rightarrow> Settled (trainFailed e s)
      | Inr (features, labels) \<Rightarrow>
          if features = [] then
            Settled (trainFailed (Error ''No training data available.'') s)
          else
            let unique = uniqueLabels labels
            in if length unique < 2 then
                 Settled (trainFailed (Error ''At least two unique labels are required.'') s)
               else
                 let dimension = (case features of [] \<Rightarrow> 0 | f # _ \<Rightarrow> length f)
                 in if dimension = 0 then
                      Settled (trainFailed (Error ''Select at least one feature column.'') s)
                    else
                      let s1 = s\<lparr>status := trainingStatus\<rparr>
                      in (case trainLoop lib (svmOptions s dimension) features labels unique [] of
                           Inl e \<Rightarrow> Pending s1
                         | Inr trainedModels \<Rightarrow>
                             let predictions = map (decideLabel lib trainedModels) features;
                                 correct = countCorrect predictions labels
                             in Settled
                                  (s1\<lparr>models := Some trainedModels,
                                      trainingAccuracy :=
                                        Some (js_div (Fin (real correct))
                                                (Fin (real (length predictions)))),
                                      status := ''Model trained'',
                                      prediction := [],
                                      trainingError := None\<rparr>)))"

section \<open>Prediction\<close>

fun predictionVector :: "(string \<rightharpoonup> string) \<Rightarrow> string list \<Rightarrow> thrown + jsnum list" where
  "predictionVector input [] = Inr []"
| "predictionVector input (column # cs) =
     (let parsed = parseFeatureValue (input column)
      in if \<not> isFinite parsed then
           Inl (Error (''Prediction input \"'' @ column @ ''\" must be numeric.''))
         else
           (case predictionVector input cs of
              Inl e \<Rightarrow> Inl e
            | Inr vs \<Rightarrow> Inr (parsed # vs)))"

definition handlePredict :: "'svm SVMLibrary \<Rightarrow> 'svm state \<Rightarrow> 'svm state" where
  "handlePredict lib s =
     (case models s of
        None \<Rightarrow> s\<lparr>prediction := ''Train a model before predicting.''\<rparr>
      | Some ms \<Rightarrow>
          if ms = [] \<or> featureColumns s = [] then
            s\<lparr>prediction := ''Train a model before predicting.''\<rparr>
          else
            (case predictionVector (predictionInput s) (featureColumns s) of
               Inl e \<Rightarrow>
                 s\<lparr>prediction := (case e of Error m \<Rightarrow> m | NonError \<Rightarrow> ''Prediction failed.'')\<rparr>
             | Inr vector \<Rightarrow> s\<lparr>prediction := decideLabel lib ms vector\<rparr>))"

section \<open>Definitions used to state the properties\<close>



text \<open>The position of the first occurrence of a label in the label vector.\<close>

definition firstIndex :: "'a list \<Rightarrow> 'a \<Rightarrow> nat" where
  "firstIndex xs x = length (takeWhile (\<lambda>y. y \<noteq> x) xs)"


section \<open>Example inputs\<close>

text \<open>
  A library whose instances are a pair of a fixed margin and a fixed class code, and two
  lists of trained models over it.
\<close>

definition constLibrary :: "(jsnum \<times> jsnum) SVMLibrary" where
  "constLibrary =
     \<lparr>train = (\<lambda>opts features labels. Inl NonError),
      marginOne = (\<lambda>h vector. fst h),
      predictOne = (\<lambda>h vector. snd h)\<rparr>"

definition tiedModels :: "(jsnum \<times> jsnum) TrainedModel list" where
  "tiedModels =
     [\<lparr>label = ''a'', svm = (Fin 1, Fin 1)\<rparr>,
      \<lparr>label = ''b'', svm = (Fin 2, Fin 1)\<rparr>,
      \<lparr>label = ''c'', svm = (Fin 2, Fin (- 1))\<rparr>,
      \<lparr>label = ''d'', svm = (NaN, Fin 1)\<rparr>]"

definition fallbackModels :: "(jsnum \<times> jsnum) TrainedModel list" where
  "fallbackModels =
     [\<lparr>label = ''a'', svm = (NaN, Fin (- 1))\<rparr>,
      \<lparr>label = ''b'', svm = (PInf, Fin (- 1))\<rparr>]"

text \<open>Rows with the two columns \<^verbatim>\<open>x\<close> and \<^verbatim>\<open>y\<close>, and states holding such rows.\<close>

definition exampleRow :: "string \<Rightarrow> string \<Rightarrow> ParsedRow" where
  "exampleRow x y = [''x'' \<mapsto> x, ''y'' \<mapsto> y]"

definition exampleState :: "ParsedRow list \<Rightarrow> string list \<Rightarrow> string \<Rightarrow> (jsnum list) state" where
  "exampleState rows fcs lc =
     initialState\<lparr>parsedRows := rows, columns := [''x'', ''y''],
                  labelColumn := lc, featureColumns := fcs\<rparr>"

text \<open>
  A library whose instance is the binary label vector it was trained on; its margin is
  the first entry of that vector.
\<close>

definition recordingLibrary :: "(jsnum list) SVMLibrary" where
  "recordingLibrary =
     \<lparr>train = (\<lambda>opts features labels. Inr labels),
      marginOne = (\<lambda>h vector. case h of [] \<Rightarrow> NaN | y # _ \<Rightarrow> y),
      predictOne = (\<lambda>h vector. Fin 1)\<rparr>"

text \<open>
  The same library, except that training throws when the first entry of the binary
  label vector is not +1.
\<close>

definition failingLibrary :: "(jsnum list) SVMLibrary" where
  "failingLibrary =
     \<lparr>train = (\<lambda>opts features labels.
                 case labels of
                   [] \<Rightarrow> Inl (Error ''solver failed'')
                 | y # _ \<Rightarrow> if y = Fin 1 then Inr labels else Inl (Error ''solver failed'')),
      marginOne = (\<lambda>h vector. case h of [] \<Rightarrow> NaN | y # _ \<Rightarrow> y),
      predictOne = (\<lambda>h vector. Fin 1)\<rparr>"

definition threeRowState :: "(jsnum list) state" where
  "threeRowState =
     exampleState [exampleRow ''1'' ''B'', exampleRow ''2'' ''A'', exampleRow ''3'' ''B'']
       [''x''] ''y''"

definition twoLabelState :: "(jsnum list) state" where
  "twoLabelState = exampleState [exampleRow ''1'' ''A'', exampleRow ''-1'' ''B''] [''x''] ''y''"

section \<open>Evaluating \<^verbatim>\<open>Number\<close> and \<^verbatim>\<open>parseFeatureValue\<close>\<close>

lemmas Number_simps =
  Number_def StringToNumber_def trimString_def isStrWhiteSpaceChar_def unsignedDecimal_def
  nonDecimal_def isDigit_def digitValue_def exponentPart_def digitsValue_def roundMV_def
  maxRound_def minRound_def

lemma parse_examples:
  "parseFeatureValue (Some ''1'') = Fin 1"
  "parseFeatureValue (Some ''2'') = Fin 2"
  "parseFeatureValue (Some ''3'') = Fin 3"
  "parseFeatureValue (Some ''-1'') = Fin (- 1)"
  "parseFeatureValue (Some ''abc'') = NaN"
  by (simp_all add: parseFeatureValue_def Number_simps)

lemma parseFeatureValue_blank: "parseFeatureValue (Some []) = Fin 0"
  by (simp add: parseFeatureValue_def Number_def StringToNumber_def trimString_def)

lemma Number_underflow: "Number (Some ''1e-400'') = Fin 0"
  by (simp add: Number_simps)


section \<open>Rounding inside the range\<close>





section \<open>Kernel options of the Rbf kernel\<close>










section \<open>Feature extraction\<close>

lemma featureVector_numeric:
  "\<forall>c \<in> set cs. isFinite (parseFeatureValue (row c)) \<Longrightarrow>
   featureVector row cs = Inr (map (\<lambda>c. parseFeatureValue (row c)) cs)"
  by (induction cs) (simp_all add: Let_def)

lemma extractRows_numeric:
  "\<forall>row \<in> set rows. \<forall>c \<in> set fcs. isFinite (parseFeatureValue (row c)) \<Longrightarrow>
   extractRows fcs lc rows (features, labels) =
     Inr (features @ map (\<lambda>row. map (\<lambda>c. parseFeatureValue (row c)) fcs) rows,
          labels @ map (\<lambda>row. String (row lc)) rows)"
proof (induction rows arbitrary: features labels)
  case Nil
  then show ?case by simp
next
  case (Cons row rows)
  then have "featureVector row fcs = Inr (map (\<lambda>c. parseFeatureValue (row c)) fcs)"
    using featureVector_numeric by simp
  with Cons show ?case by simp
qed

lemma featureVector_first_bad:
  "j < length cs \<Longrightarrow> \<not> isFinite (parseFeatureValue (row (cs ! j))) \<Longrightarrow>
   \<forall>l < j. isFinite (parseFeatureValue (row (cs ! l))) \<Longrightarrow>
   featureVector row cs = Inl (Error (''Column \"'' @ cs ! j @ ''\" contains non-numeric values.''))"
proof (induction cs arbitrary: j)
  case Nil
  then show ?case by simp
next
  case (Cons c cs)
  show ?case
  proof (cases j)
    case 0
    with Cons.prems show ?thesis by (simp add: Let_def)
  next
    case (Suc k)
    with Cons.prems have c: "isFinite (parseFeatureValue (row c))" by auto
    from Suc Cons.prems have "\<forall>l < k. isFinite (parseFeatureValue (row (cs ! l)))" by auto
    with Cons.IH [of k] Suc Cons.prems have
      "featureVector row cs = Inl (Error (''Column \"'' @ cs ! k @ ''\" contains non-numeric values.''))"
      by simp
    with c Suc show ?thesis by (simp add: Let_def)
  qed
qed

lemma extractRows_first_bad:
  "i < length rows \<Longrightarrow>
   \<forall>k < i. \<forall>c \<in> set fcs. isFinite (parseFeatureValue ((rows ! k) c)) \<Longrightarrow>
   featureVector (rows ! i) fcs = Inl e \<Longrightarrow>
   extractRows fcs lc rows (features, labels) = Inl e"
proof (induction rows arbitrary: i features labels)
  case Nil
  then show ?case by simp
next
  case (Cons row rows)
  show ?case
  proof (cases i)
    case 0
    with Cons.prems show ?thesis by simp
  next
    case (Suc k)
    with Cons.prems have "\<forall>c \<in> set fcs. isFinite (parseFeatureValue (row c))" by auto
    then have fv: "featureVector row fcs = Inr (map (\<lambda>c. parseFeatureValue (row c)) fcs)"
      by (rule featureVector_numeric)
    from Suc Cons.prems have "\<forall>l < k. \<forall>c \<in> set fcs. isFinite (parseFeatureValue ((rows ! l) c))"
      by auto
    with Cons.IH [of k] Suc Cons.prems fv show ?thesis by simp
  qed
qed

lemma featureVector_error:
  "featureVector row cs = Inl e \<Longrightarrow>
   \<exists>c. e = Error (''Column \"'' @ c @ ''\" contains non-numeric values.'')"
  by (induction cs) (auto simp: Let_def split: if_splits sum.splits)

lemma extractRows_error:
  "extractRows fcs lc rows (features, labels) = Inl e \<Longrightarrow>
   \<exists>c. e = Error (''Column \"'' @ c @ ''\" contains non-numeric values.'')"
proof (induction rows arbitrary: features labels)
  case Nil
  then show ?case by simp
next
  case (Cons row rows)
  then show ?case using featureVector_error by (auto split: sum.splits)
qed

text \<open>
  Claim C9. The empty text parses to the finite number 0, and extraction does not fail on
  a blank feature cell: when every selected cell of every row is blank or parses to a
  finite number, extraction returns a matrix with one row per dataset row, holding 0 at
  every blank cell.
\<close>

theorem C9_blank_cell_is_zero:
  assumes "parsedRows s \<noteq> []" and "featureColumns s \<noteq> []" and "labelColumn s \<noteq> []"
    and "\<forall>row \<in> set (parsedRows s). \<forall>c \<in> set (featureColumns s).
           row c = Some [] \<or> isFinite (parseFeatureValue (row c))"
  shows "parseFeatureValue (Some []) = Fin 0
         \<and> isFinite (parseFeatureValue (Some []))
         \<and> (\<exists>features labels.
               computeFeaturesAndLabels s = Inr (features, labels)
               \<and> length features = length (parsedRows s)
               \<and> (\<forall>i < length (parsedRows s). \<forall>j < length (featureColumns s).
                     (parsedRows s ! i) (featureColumns s ! j) = Some [] \<longrightarrow>
                     features ! i ! j = Fin 0))"
proof -
  have fin: "\<forall>row \<in> set (parsedRows s). \<forall>c \<in> set (featureColumns s).
               isFinite (parseFeatureValue (row c))"
    using assms(4) parseFeatureValue_blank by fastforce
  let ?F = "map (\<lambda>row. map (\<lambda>c. parseFeatureValue (row c)) (featureColumns s)) (parsedRows s)"
  let ?L = "map (\<lambda>row. String (row (labelColumn s))) (parsedRows s)"
  have r: "computeFeaturesAndLabels s = Inr (?F, ?L)"
    using assms(1-3) extractRows_numeric [OF fin, of "labelColumn s" "[]" "[]"]
    by (simp add: computeFeaturesAndLabels_def)
  have z: "\<forall>i < length (parsedRows s). \<forall>j < length (featureColumns s).
             (parsedRows s ! i) (featureColumns s ! j) = Some [] \<longrightarrow> ?F ! i ! j = Fin 0"
    by (simp add: parseFeatureValue_blank)
  from r z show ?thesis by (simp add: parseFeatureValue_blank)
qed

theorem C9_blank_cell_is_zero_witness:
  "computeFeaturesAndLabels (exampleState [exampleRow [] ''A'', exampleRow ''2'' ''B''] [''x''] ''y'')
     = Inr ([[Fin 0], [Fin 2]], [''A'', ''B''])
   \<and> parseFeatureValue (Some []) = Fin 0"
proof -
  let ?s = "exampleState [exampleRow [] ''A'', exampleRow ''2'' ''B''] [''x''] ''y''"
  have h1: "parsedRows ?s \<noteq> []" and h2: "featureColumns ?s \<noteq> []" and h3: "labelColumn ?s \<noteq> []"
    by (simp_all add: exampleState_def)
  have p2: "parseFeatureValue (Some ''2'') = Fin 2"
    by (simp add: parseFeatureValue_def Number_simps)
  have h4: "\<forall>row \<in> set (parsedRows ?s). \<forall>c \<in> set (featureColumns ?s).
           row c = Some [] \<or> isFinite (parseFeatureValue (row c))"
    by (simp add: exampleState_def exampleRow_def p2)
  have e: "computeFeaturesAndLabels ?s = Inr ([[Fin 0], [Fin 2]], [''A'', ''B''])"
    by (simp add: computeFeaturesAndLabels_def exampleState_def exampleRow_def
        parseFeatureValue_blank p2 String_def)
  from C9_blank_cell_is_zero [OF h1 h2 h3 h4] e show ?thesis by simp
qed

text \<open>
  Claim C4 as stated fails: the error names the column only. A dataset whose first row
  holds the non-numeric cell and one whose second row holds it yield the same error.
\<close>

theorem C4_counterexample:
  "computeFeaturesAndLabels (exampleState [exampleRow ''abc'' ''A'', exampleRow ''2'' ''B''] [''x''] ''y'')
     = Inl (Error ''Column \"x\" contains non-numeric values.'')
   \<and> computeFeaturesAndLabels (exampleState [exampleRow ''1'' ''A'', exampleRow ''abc'' ''B''] [''x''] ''y'')
     = Inl (Error ''Column \"x\" contains non-numeric values.'')"
proof -
  have p1: "parseFeatureValue (Some ''1'') = Fin 1"
    by (simp add: parseFeatureValue_def Number_simps)
  have p2: "parseFeatureValue (Some ''abc'') = NaN"
    by (simp add: parseFeatureValue_def Number_simps)
  show ?thesis
    by (simp add: computeFeaturesAndLabels_def exampleState_def exampleRow_def p1 p2)
qed

text \<open>
  Claim C4, amended. For every dataset that passes the configuration check and contains a
  row whose value in a selected feature column does not parse as a finite number,
  extraction fails with an error that names the column of the first such cell, rows taken
  in order and columns from the left; it returns no matrix, so the value is neither
  coerced nor the row dropped.
\<close>

theorem C4_non_numeric_names_column:
  assumes "parsedRows s \<noteq> []" and "featureColumns s \<noteq> []" and "labelColumn s \<noteq> []"
    and "\<exists>row \<in> set (parsedRows s). \<exists>c \<in> set (featureColumns s).
           \<not> isFinite (parseFeatureValue (row c))"
  shows "\<exists>i j. i < length (parsedRows s) \<and> j < length (featureColumns s)
           \<and> \<not> isFinite (parseFeatureValue ((parsedRows s ! i) (featureColumns s ! j)))
           \<and> (\<forall>k < i. \<forall>c \<in> set (featureColumns s).
                  isFinite (parseFeatureValue ((parsedRows s ! k) c)))
           \<and> (\<forall>l < j. isFinite (parseFeatureValue ((parsedRows s ! i) (featureColumns s ! l))))
           \<and> computeFeaturesAndLabels s =
               Inl (Error (''Column \"'' @ featureColumns s ! j
                            @ ''\" contains non-numeric values.''))"
proof -
  let ?rows = "parsedRows s" and ?fcs = "featureColumns s"
  let ?badRow = "\<lambda>i. i < length ?rows \<and> (\<exists>c \<in> set ?fcs. \<not> isFinite (parseFeatureValue ((?rows ! i) c)))"
  from assms(4) have "\<exists>i. ?badRow i" by (metis in_set_conv_nth)
  then obtain i where i: "?badRow i" and imin: "\<forall>k < i. \<not> ?badRow k"
    using exists_least_iff [of ?badRow] by blast
  let ?badCol = "\<lambda>j. j < length ?fcs \<and> \<not> isFinite (parseFeatureValue ((?rows ! i) (?fcs ! j)))"
  from i have "\<exists>j. ?badCol j" by (metis in_set_conv_nth)
  then obtain j where j: "?badCol j" and jmin: "\<forall>l < j. \<not> ?badCol l"
    using exists_least_iff [of ?badCol] by blast
  have before: "\<forall>k < i. \<forall>c \<in> set ?fcs. isFinite (parseFeatureValue ((?rows ! k) c))"
    using imin i by (meson less_trans)
  have left: "\<forall>l < j. isFinite (parseFeatureValue ((?rows ! i) (?fcs ! l)))"
    using jmin j by (meson less_trans)
  have "featureVector (?rows ! i) ?fcs =
          Inl (Error (''Column \"'' @ ?fcs ! j @ ''\" contains non-numeric values.''))"
    using featureVector_first_bad [of j ?fcs "?rows ! i"] j left by blast
  then have "extractRows ?fcs (labelColumn s) ?rows ([], []) =
          Inl (Error (''Column \"'' @ ?fcs ! j @ ''\" contains non-numeric values.''))"
    using extractRows_first_bad [of i ?rows ?fcs] i before by blast
  then have "computeFeaturesAndLabels s =
          Inl (Error (''Column \"'' @ ?fcs ! j @ ''\" contains non-numeric values.''))"
    using assms(1-3) by (simp add: computeFeaturesAndLabels_def)
  with i j before left show ?thesis by blast
qed

theorem C4_non_numeric_names_column_witness:
  "computeFeaturesAndLabels
       (exampleState [exampleRow ''1'' ''A'', exampleRow ''abc'' ''B''] [''x''] ''y'')
     = Inl (Error ''Column \"x\" contains non-numeric values.'')
   \<and> \<not> isFinite (parseFeatureValue (exampleRow ''abc'' ''B'' ''x''))"
proof -
  let ?s = "exampleState [exampleRow ''1'' ''A'', exampleRow ''abc'' ''B''] [''x''] ''y''"
  have h1: "parsedRows ?s \<noteq> []" and h2: "featureColumns ?s \<noteq> []" and h3: "labelColumn ?s \<noteq> []"
    by (simp_all add: exampleState_def)
  have p: "parseFeatureValue (Some ''abc'') = NaN"
    by (simp add: parseFeatureValue_def Number_simps)
  have h4: "\<exists>row \<in> set (parsedRows ?s). \<exists>c \<in> set (featureColumns ?s).
           \<not> isFinite (parseFeatureValue (row c))"
    by (simp add: exampleState_def exampleRow_def p)
  from C4_non_numeric_names_column [OF h1 h2 h3 h4] obtain j where
    "j < length (featureColumns ?s)"
    "computeFeaturesAndLabels ?s =
       Inl (Error (''Column \"'' @ featureColumns ?s ! j @ ''\" contains non-numeric values.''))"
    by blast
  then have "computeFeaturesAndLabels ?s = Inl (Error ''Column \"x\" contains non-numeric values.'')"
    by (simp add: exampleState_def)
  then show ?thesis by (simp add: exampleRow_def p)
qed

text \<open>
  Claim C6 as stated fails: zero rows and zero feature columns yield one and the same
  error, and a label column that is not a column of the dataset is not detected, every
  label being read as the text \<^verbatim>\<open>undefined\<close>.
\<close>

theorem C6_counterexample:
  "computeFeaturesAndLabels (exampleState [] [''x''] ''y'')
     = Inl (Error ''Dataset, features, or label configuration missing.'')
   \<and> computeFeaturesAndLabels (exampleState [exampleRow ''1'' ''A''] [] ''y'')
     = Inl (Error ''Dataset, features, or label configuration missing.'')
   \<and> computeFeaturesAndLabels (exampleState [exampleRow ''1'' ''A''] [''x''] ''z'')
     = Inr ([[Fin 1]], [''undefined''])"
proof -
  have p: "parseFeatureValue (Some ''1'') = Fin 1"
    by (simp add: parseFeatureValue_def Number_simps)
  show ?thesis
    by (simp add: computeFeaturesAndLabels_def exampleState_def exampleRow_def p String_def)
qed

text \<open>
  Claim C6, amended. Extraction fails with the one error "Dataset, features, or label
  configuration missing." exactly when the dataset has zero rows, or zero feature columns
  are selected, or the label column name is empty.
\<close>

theorem C6_one_error_for_missing_configuration:
  "(computeFeaturesAndLabels s = Inl (Error ''Dataset, features, or label configuration missing.''))
   = (parsedRows s = [] \<or> featureColumns s = [] \<or> labelColumn s = [])"
proof
  assume a: "computeFeaturesAndLabels s = Inl (Error ''Dataset, features, or label configuration missing.'')"
  show "parsedRows s = [] \<or> featureColumns s = [] \<or> labelColumn s = []"
  proof (rule ccontr)
    assume "\<not> (parsedRows s = [] \<or> featureColumns s = [] \<or> labelColumn s = [])"
    with a have "extractRows (featureColumns s) (labelColumn s) (parsedRows s) ([], [])
        = Inl (Error ''Dataset, features, or label configuration missing.'')"
      by (simp add: computeFeaturesAndLabels_def)
    from extractRows_error [OF this] show False by simp
  qed
next
  assume "parsedRows s = [] \<or> featureColumns s = [] \<or> labelColumn s = []"
  then show "computeFeaturesAndLabels s = Inl (Error ''Dataset, features, or label configuration missing.'')"
    by (simp add: computeFeaturesAndLabels_def)
qed

theorem C6_one_error_for_missing_configuration_witness:
  "computeFeaturesAndLabels (exampleState [exampleRow ''1'' ''A''] [''x''] [])
     = Inl (Error ''Dataset, features, or label configuration missing.'')
   \<and> labelColumn (exampleState [exampleRow ''1'' ''A''] [''x''] []) = []"
proof -
  let ?s = "exampleState [exampleRow ''1'' ''A''] [''x''] []"
  have l: "labelColumn ?s = []" by (simp add: exampleState_def)
  with C6_one_error_for_missing_configuration [of ?s] show ?thesis by simp
qed

section \<open>The decision loop returns the first pair of greatest score\<close>

lemma js_gt_irrefl: "\<not> js_gt a a"
  by (cases a) simp_all

lemma js_gt_NInf: "isFinite a \<Longrightarrow> js_gt a NInf"
  by (cases a) simp_all

lemma js_gt_trans_le:
  "isFinite a \<Longrightarrow> \<not> js_gt a b \<Longrightarrow> js_gt c b \<Longrightarrow> isFinite c \<Longrightarrow> js_gt c a"
  by (cases a; cases b; cases c) simp_all

lemma js_gt_not_trans:
  "isFinite a \<Longrightarrow> isFinite b \<Longrightarrow> isFinite c \<Longrightarrow> \<not> js_gt a b \<Longrightarrow> \<not> js_gt b c \<Longrightarrow> \<not> js_gt a c"
  by (cases a; cases b; cases c) simp_all

lemma score_finite:
  "predictOne lib (svm m) v = Fin 1 \<or> predictOne lib (svm m) v = Fin (- 1) \<Longrightarrow> isFinite (score lib v m)"
  by (auto simp: score_def Let_def)

lemma decisionLoop_char:
  assumes "\<forall>m \<in> set ms. isFinite (score lib v m)"
  shows "(decisionLoop lib v ms (bl, bs) = (bl, bs) \<and> (\<forall>m \<in> set ms. \<not> js_gt (score lib v m) bs))
       \<or> (\<exists>i < length ms. decisionLoop lib v ms (bl, bs) = (label (ms ! i), score lib v (ms ! i))
            \<and> js_gt (score lib v (ms ! i)) bs
            \<and> (\<forall>j < length ms. \<not> js_gt (score lib v (ms ! j)) (score lib v (ms ! i)))
            \<and> (\<forall>j < i. js_gt (score lib v (ms ! i)) (score lib v (ms ! j))))"
  using assms
proof (induction ms arbitrary: bl bs)
  case Nil
  then show ?case by simp
next
  case (Cons m ms)
  have fin: "\<forall>x \<in> set ms. isFinite (score lib v x)" and finm: "isFinite (score lib v m)"
    using Cons.prems by simp_all
  show ?case
  proof (cases "js_gt (score lib v m) bs")
    case True
    from Cons.IH [OF fin, of "label m" "score lib v m"]
    show ?thesis
    proof
      assume a: "decisionLoop lib v ms (label m, score lib v m) = (label m, score lib v m) \<and>
                 (\<forall>x \<in> set ms. \<not> js_gt (score lib v x) (score lib v m))"
      have "\<forall>j < length (m # ms). \<not> js_gt (score lib v ((m # ms) ! j)) (score lib v m)"
      proof (intro allI impI)
        fix j assume "j < length (m # ms)"
        then show "\<not> js_gt (score lib v ((m # ms) ! j)) (score lib v m)"
          using a by (cases j) (simp_all add: js_gt_irrefl)
      qed
      with a True have "0 < length (m # ms) \<and>
          decisionLoop lib v (m # ms) (bl, bs) = (label ((m # ms) ! 0), score lib v ((m # ms) ! 0))
          \<and> js_gt (score lib v ((m # ms) ! 0)) bs
          \<and> (\<forall>j < length (m # ms). \<not> js_gt (score lib v ((m # ms) ! j)) (score lib v ((m # ms) ! 0)))
          \<and> (\<forall>j < 0. js_gt (score lib v ((m # ms) ! 0)) (score lib v ((m # ms) ! j)))"
        by simp
      then show ?thesis by blast
    next
      assume "\<exists>i < length ms. decisionLoop lib v ms (label m, score lib v m) = (label (ms ! i), score lib v (ms ! i))
            \<and> js_gt (score lib v (ms ! i)) (score lib v m)
            \<and> (\<forall>j < length ms. \<not> js_gt (score lib v (ms ! j)) (score lib v (ms ! i)))
            \<and> (\<forall>j < i. js_gt (score lib v (ms ! i)) (score lib v (ms ! j)))"
      then obtain i where i: "i < length ms"
        and r: "decisionLoop lib v ms (label m, score lib v m) = (label (ms ! i), score lib v (ms ! i))"
        and g: "js_gt (score lib v (ms ! i)) (score lib v m)"
        and mx: "\<forall>j < length ms. \<not> js_gt (score lib v (ms ! j)) (score lib v (ms ! i))"
        and fs: "\<forall>j < i. js_gt (score lib v (ms ! i)) (score lib v (ms ! j))"
        by blast
      have fi: "isFinite (score lib v (ms ! i))" using fin i by simp
      have g2: "js_gt (score lib v (ms ! i)) bs"
        using g True finm fi by (cases "score lib v (ms ! i)"; cases "score lib v m"; cases bs) simp_all
      have ng: "\<not> js_gt (score lib v m) (score lib v (ms ! i))"
        using g finm fi by (cases "score lib v (ms ! i)"; cases "score lib v m") simp_all
      have mx': "\<forall>j < length (m # ms). \<not> js_gt (score lib v ((m # ms) ! j)) (score lib v ((m # ms) ! Suc i))"
      proof (intro allI impI)
        fix j assume "j < length (m # ms)"
        then show "\<not> js_gt (score lib v ((m # ms) ! j)) (score lib v ((m # ms) ! Suc i))"
          using mx ng by (cases j) simp_all
      qed
      have fs': "\<forall>j < Suc i. js_gt (score lib v ((m # ms) ! Suc i)) (score lib v ((m # ms) ! j))"
      proof (intro allI impI)
        fix j assume "j < Suc i"
        then show "js_gt (score lib v ((m # ms) ! Suc i)) (score lib v ((m # ms) ! j))"
          using fs g by (cases j) simp_all
      qed
      have "Suc i < length (m # ms) \<and>
          decisionLoop lib v (m # ms) (bl, bs) = (label ((m # ms) ! Suc i), score lib v ((m # ms) ! Suc i))
          \<and> js_gt (score lib v ((m # ms) ! Suc i)) bs"
        using i r True g2 by simp
      with mx' fs' show ?thesis by blast
    qed
  next
    case False
    from Cons.IH [OF fin, of bl bs]
    show ?thesis
    proof
      assume "decisionLoop lib v ms (bl, bs) = (bl, bs) \<and> (\<forall>x \<in> set ms. \<not> js_gt (score lib v x) bs)"
      with False show ?thesis by simp
    next
      assume "\<exists>i < length ms. decisionLoop lib v ms (bl, bs) = (label (ms ! i), score lib v (ms ! i))
            \<and> js_gt (score lib v (ms ! i)) bs
            \<and> (\<forall>j < length ms. \<not> js_gt (score lib v (ms ! j)) (score lib v (ms ! i)))
            \<and> (\<forall>j < i. js_gt (score lib v (ms ! i)) (score lib v (ms ! j)))"
      then obtain i where i: "i < length ms"
        and r: "decisionLoop lib v ms (bl, bs) = (label (ms ! i), score lib v (ms ! i))"
        and g: "js_gt (score lib v (ms ! i)) bs"
        and mx: "\<forall>j < length ms. \<not> js_gt (score lib v (ms ! j)) (score lib v (ms ! i))"
        and fs: "\<forall>j < i. js_gt (score lib v (ms ! i)) (score lib v (ms ! j))"
        by blast
      have fi: "isFinite (score lib v (ms ! i))" using fin i by simp
      have g0: "js_gt (score lib v (ms ! i)) (score lib v m)"
        using js_gt_trans_le [OF finm False g fi] .
      have ng: "\<not> js_gt (score lib v m) (score lib v (ms ! i))"
        using g0 finm fi by (cases "score lib v (ms ! i)"; cases "score lib v m") simp_all
      have mx': "\<forall>j < length (m # ms). \<not> js_gt (score lib v ((m # ms) ! j)) (score lib v ((m # ms) ! Suc i))"
      proof (intro allI impI)
        fix j assume "j < length (m # ms)"
        then show "\<not> js_gt (score lib v ((m # ms) ! j)) (score lib v ((m # ms) ! Suc i))"
          using mx ng by (cases j) simp_all
      qed
      have fs': "\<forall>j < Suc i. js_gt (score lib v ((m # ms) ! Suc i)) (score lib v ((m # ms) ! j))"
      proof (intro allI impI)
        fix j assume "j < Suc i"
        then show "js_gt (score lib v ((m # ms) ! Suc i)) (score lib v ((m # ms) ! j))"
          using fs g0 by (cases j) simp_all
      qed
      have "Suc i < length (m # ms) \<and>
          decisionLoop lib v (m # ms) (bl, bs) = (label ((m # ms) ! Suc i), score lib v ((m # ms) ! Suc i))
          \<and> js_gt (score lib v ((m # ms) ! Suc i)) bs"
        using i r False g by simp
      with mx' fs' show ?thesis by blast
    qed
  qed
qed

lemma decisionLoop_start:
  assumes "ms \<noteq> []" and "\<forall>m \<in> set ms. isFinite (score lib v m)"
  shows "\<exists>i < length ms. decisionLoop lib v ms ([], NInf) = (label (ms ! i), score lib v (ms ! i))
            \<and> (\<forall>j < length ms. \<not> js_gt (score lib v (ms ! j)) (score lib v (ms ! i)))
            \<and> (\<forall>j < i. js_gt (score lib v (ms ! i)) (score lib v (ms ! j)))"
proof -
  obtain m where m: "m \<in> set ms" using assms(1) by (cases ms) auto
  then have "js_gt (score lib v m) NInf" using assms(2) js_gt_NInf by blast
  with m have "\<not> (\<forall>m \<in> set ms. \<not> js_gt (score lib v m) NInf)" by blast
  with decisionLoop_char [OF assms(2), of "[]" NInf] show ?thesis by blast
qed

text \<open>
  Claim C2. For every non-empty list of trained models whose class codes on the query
  vector are +1 or -1, and every query vector, the score of a pair is its margin when
  that is finite and its class code otherwise, and the label returned is the label of
  the first pair, in model order, whose score no other pair exceeds: every earlier pair
  has a strictly smaller score, so among pairs of equal greatest score the earliest wins.
\<close>

theorem C2_first_greatest_score:
  assumes "ms \<noteq> []"
    and "\<forall>m \<in> set ms. predictOne lib (svm m) v = Fin 1 \<or> predictOne lib (svm m) v = Fin (- 1)"
  shows "\<exists>i < length ms.
           decideLabel lib ms v = label (ms ! i)
           \<and> (\<forall>j < length ms. \<not> js_gt (score lib v (ms ! j)) (score lib v (ms ! i)))
           \<and> (\<forall>j < i. js_gt (score lib v (ms ! i)) (score lib v (ms ! j)))
           \<and> (\<forall>j < length ms. score lib v (ms ! j) =
                 (if isFinite (marginOne lib (svm (ms ! j)) v)
                  then marginOne lib (svm (ms ! j)) v
                  else predictOne lib (svm (ms ! j)) v))"
proof -
  have fin: "\<forall>m \<in> set ms. isFinite (score lib v m)"
    using assms(2) score_finite by blast
  from decisionLoop_start [OF assms(1) fin] obtain i where
    i: "i < length ms"
    and r: "decisionLoop lib v ms ([], NInf) = (label (ms ! i), score lib v (ms ! i))"
    and mx: "\<forall>j < length ms. \<not> js_gt (score lib v (ms ! j)) (score lib v (ms ! i))"
    and fs: "\<forall>j < i. js_gt (score lib v (ms ! i)) (score lib v (ms ! j))"
    by blast
  have sc: "\<forall>j < length ms. score lib v (ms ! j) =
                 (if isFinite (marginOne lib (svm (ms ! j)) v)
                  then marginOne lib (svm (ms ! j)) v
                  else predictOne lib (svm (ms ! j)) v)"
    by (simp add: score_def Let_def)
  have "decideLabel lib ms v = label (ms ! i)"
    by (simp add: decideLabel_def r)
  with i mx fs sc show ?thesis by blast
qed

theorem C2_first_greatest_score_witness:
  "tiedModels \<noteq> []
   \<and> list_all (\<lambda>m. predictOne constLibrary (svm m) [] = Fin 1
                       \<or> predictOne constLibrary (svm m) [] = Fin (- 1)) tiedModels
   \<and> decideLabel constLibrary tiedModels [] = ''b''
   \<and> (\<exists>i < length tiedModels.
           decideLabel constLibrary tiedModels [] = label (tiedModels ! i)
           \<and> (\<forall>j < length tiedModels.
                 \<not> js_gt (score constLibrary [] (tiedModels ! j)) (score constLibrary [] (tiedModels ! i)))
           \<and> (\<forall>j < i. js_gt (score constLibrary [] (tiedModels ! i)) (score constLibrary [] (tiedModels ! j)))
           \<and> (\<forall>j < length tiedModels. score constLibrary [] (tiedModels ! j) =
                 (if isFinite (marginOne constLibrary (svm (tiedModels ! j)) [])
                  then marginOne constLibrary (svm (tiedModels ! j)) []
                  else predictOne constLibrary (svm (tiedModels ! j)) [])))"
proof -
  have h1: "tiedModels \<noteq> []" by (simp add: tiedModels_def)
  have h2: "\<forall>m \<in> set tiedModels. predictOne constLibrary (svm m) [] = Fin 1
                              \<or> predictOne constLibrary (svm m) [] = Fin (- 1)"
    by (simp add: tiedModels_def constLibrary_def)
  have h3: "decideLabel constLibrary tiedModels [] = ''b''"
    by (simp add: decideLabel_def tiedModels_def constLibrary_def score_def)
  from C2_first_greatest_score [OF h1 h2] h1 h2 h3 show ?thesis
    unfolding list_all_iff by blast
qed

text \<open>
  Claim C10. For every model with at least one pair whose class codes on the vector are
  +1 or -1, the decision loop returns the label of some pair of the model, also when no
  margin is finite: the initial label of the loop is never what it returns.
\<close>

theorem C10_label_of_some_pair:
  assumes "ms \<noteq> []"
    and "\<forall>m \<in> set ms. predictOne lib (svm m) v = Fin 1 \<or> predictOne lib (svm m) v = Fin (- 1)"
  shows "decideLabel lib ms v \<in> label ` set ms"
proof -
  have fin: "\<forall>m \<in> set ms. isFinite (score lib v m)"
    using assms(2) score_finite by blast
  from decisionLoop_start [OF assms(1) fin] obtain i where
    "i < length ms" "decisionLoop lib v ms ([], NInf) = (label (ms ! i), score lib v (ms ! i))"
    by blast
  then show ?thesis unfolding decideLabel_def by simp
qed

theorem C10_label_of_some_pair_witness:
  "fallbackModels \<noteq> []
   \<and> list_all (\<lambda>m. predictOne constLibrary (svm m) [] = Fin 1
                       \<or> predictOne constLibrary (svm m) [] = Fin (- 1)) fallbackModels
   \<and> list_all (\<lambda>m. \<not> isFinite (marginOne constLibrary (svm m) [])) fallbackModels
   \<and> decideLabel constLibrary fallbackModels [] = ''a''
   \<and> decideLabel constLibrary fallbackModels [] \<in> label ` set fallbackModels"
proof -
  have h1: "fallbackModels \<noteq> []" by (simp add: fallbackModels_def)
  have h2: "\<forall>m \<in> set fallbackModels. predictOne constLibrary (svm m) [] = Fin 1
                              \<or> predictOne constLibrary (svm m) [] = Fin (- 1)"
    by (simp add: fallbackModels_def constLibrary_def)
  have h3: "\<forall>m \<in> set fallbackModels. \<not> isFinite (marginOne constLibrary (svm m) [])"
    by (simp add: fallbackModels_def constLibrary_def)
  have h4: "decideLabel constLibrary fallbackModels [] = ''a''"
    by (simp add: decideLabel_def fallbackModels_def constLibrary_def score_def)
  from C10_label_of_some_pair [OF h1 h2] h1 h2 h3 h4 show ?thesis
    unfolding list_all_iff by blast
qed

text \<open>
  The prediction handler applies this loop to the parsed prediction input.
\<close>

lemma handlePredict_decides:
  assumes "models s = Some ms" and "ms \<noteq> []" and "featureColumns s \<noteq> []"
    and "predictionVector (predictionInput s) (featureColumns s) = Inr v"
  shows "prediction (handlePredict lib s) = decideLabel lib ms v"
  using assms by (simp add: handlePredict_def)

section \<open>One-vs-rest training\<close>

lemma uniqueLabels_snoc: "uniqueLabels (xs @ [x]) = set_add (uniqueLabels xs) x"
  by (simp add: uniqueLabels_def)

lemma set_uniqueLabels: "set (uniqueLabels xs) = set xs"
  by (induction xs rule: rev_induct) (auto simp: uniqueLabels_snoc set_add_def uniqueLabels_def)

lemma distinct_uniqueLabels: "distinct (uniqueLabels xs)"
  by (induction xs rule: rev_induct) (auto simp: uniqueLabels_snoc set_add_def uniqueLabels_def)

lemma length_uniqueLabels: "length (uniqueLabels xs) = card (set xs)"
  using distinct_card [OF distinct_uniqueLabels, of xs] by (simp add: set_uniqueLabels)

lemma firstIndex_append_mem: "a \<in> set xs \<Longrightarrow> firstIndex (xs @ ys) a = firstIndex xs a"
  by (auto simp: firstIndex_def)

lemma firstIndex_less: "a \<in> set xs \<Longrightarrow> firstIndex xs a < length xs"
  unfolding firstIndex_def by (induction xs) auto

lemma firstIndex_new: "x \<notin> set xs \<Longrightarrow> firstIndex (xs @ [x]) x = length xs"
  unfolding firstIndex_def by (induction xs) auto

lemma uniqueLabels_first_seen:
  "sorted_wrt (\<lambda>a b. firstIndex xs a < firstIndex xs b) (uniqueLabels xs)"
proof (induction xs rule: rev_induct)
  case Nil
  then show ?case by (simp add: uniqueLabels_def)
next
  case (snoc x xs)
  have keep: "sorted_wrt (\<lambda>a b. firstIndex (xs @ [x]) a < firstIndex (xs @ [x]) b) (uniqueLabels xs)"
    using snoc
    by (rule sorted_wrt_mono_rel [rotated]) (simp add: set_uniqueLabels firstIndex_append_mem)
  show ?case
  proof (cases "x \<in> set xs")
    case True
    with keep show ?thesis by (simp add: uniqueLabels_snoc set_add_def set_uniqueLabels)
  next
    case False
    have "\<forall>a \<in> set (uniqueLabels xs). firstIndex (xs @ [x]) a < firstIndex (xs @ [x]) x"
      using False by (simp add: set_uniqueLabels firstIndex_append_mem firstIndex_less firstIndex_new)
    with keep False show ?thesis
      by (simp add: uniqueLabels_snoc set_add_def set_uniqueLabels sorted_wrt_append)
  qed
qed

lemma featureVector_length: "featureVector row cs = Inr v \<Longrightarrow> length v = length cs"
  by (induction cs arbitrary: v) (auto simp: Let_def split: if_splits sum.splits)

lemma extractRows_shape:
  "extractRows fcs lc rows (features, labels) = Inr (F, L) \<Longrightarrow>
   \<exists>F'. F = features @ F' \<and> length F' = length rows \<and> (\<forall>f \<in> set F'. length f = length fcs)
        \<and> L = labels @ map (\<lambda>row. String (row lc)) rows"
proof (induction rows arbitrary: features labels)
  case Nil
  then show ?case by simp
next
  case (Cons row rows)
  from Cons.prems obtain fv where fv: "featureVector row fcs = Inr fv"
    and r: "extractRows fcs lc rows (features @ [fv], labels @ [String (row lc)]) = Inr (F, L)"
    by (auto split: sum.splits)
  from Cons.IH [OF r] obtain F' where
    "F = (features @ [fv]) @ F'" "length F' = length rows" "\<forall>f \<in> set F'. length f = length fcs"
    "L = (labels @ [String (row lc)]) @ map (\<lambda>row. String (row lc)) rows"
    by blast
  then have "F = features @ (fv # F') \<and> length (fv # F') = length (row # rows)
      \<and> (\<forall>f \<in> set (fv # F'). length f = length fcs)
      \<and> L = labels @ map (\<lambda>row. String (row lc)) (row # rows)"
    using featureVector_length [OF fv] by simp
  then show ?case by blast
qed

lemma computeFeaturesAndLabels_shape:
  assumes "computeFeaturesAndLabels s = Inr (F, L)"
  shows "\<exists>f F'. F = f # F' \<and> length f = length (featureColumns s) \<and> featureColumns s \<noteq> []
           \<and> L = map (\<lambda>row. String (row (labelColumn s))) (parsedRows s)
           \<and> length F = length (parsedRows s)"
proof -
  from assms have g: "parsedRows s \<noteq> []" "featureColumns s \<noteq> []"
    and e: "extractRows (featureColumns s) (labelColumn s) (parsedRows s) ([], []) = Inr (F, L)"
    by (auto simp: computeFeaturesAndLabels_def split: if_splits)
  from extractRows_shape [OF e] have
    len: "length F = length (parsedRows s)" and all: "\<forall>f \<in> set F. length f = length (featureColumns s)"
    and L: "L = map (\<lambda>row. String (row (labelColumn s))) (parsedRows s)"
    by auto
  from len g(1) obtain f F' where F: "F = f # F'" by (cases F) auto
  with all have "length f = length (featureColumns s)" by simp
  with F g(2) L len show ?thesis by blast
qed

lemma trainLoop_succeeds:
  "\<forall>t \<in> set us. \<exists>h. train lib opts F (binaryLabels labels t) = Inr h \<Longrightarrow>
   \<exists>ms. trainLoop lib opts F labels us acc = Inr (acc @ ms) \<and> map label ms = us
        \<and> (\<forall>m \<in> set ms. train lib opts F (binaryLabels labels (label m)) = Inr (svm m))"
proof (induction us arbitrary: acc)
  case Nil
  then show ?case by simp
next
  case (Cons t us)
  then obtain h where h: "train lib opts F (binaryLabels labels t) = Inr h" by auto
  from Cons.prems have "\<forall>t \<in> set us. \<exists>h. train lib opts F (binaryLabels labels t) = Inr h" by simp
  from Cons.IH [OF this, of "acc @ [\<lparr>label = t, svm = h\<rparr>]"] obtain ms where
    ms: "trainLoop lib opts F labels us (acc @ [\<lparr>label = t, svm = h\<rparr>])
           = Inr ((acc @ [\<lparr>label = t, svm = h\<rparr>]) @ ms)"
    "map label ms = us"
    "\<forall>m \<in> set ms. train lib opts F (binaryLabels labels (label m)) = Inr (svm m)"
    by blast
  let ?ms = "\<lparr>label = t, svm = h\<rparr> # ms"
  have "trainLoop lib opts F labels (t # us) acc = Inr (acc @ ?ms) \<and> map label ?ms = t # us
        \<and> (\<forall>m \<in> set ?ms. train lib opts F (binaryLabels labels (label m)) = Inr (svm m))"
    using h ms by simp
  then show ?case by (rule exI [of _ ?ms])
qed

lemma trainModel_after_extraction:
  assumes "computeFeaturesAndLabels s = Inr (F, L)"
  shows "trainModel lib s =
     (if card (set L) < 2 then
        Settled (trainFailed (Error ''At least two unique labels are required.'') s)
      else
        case trainLoop lib (svmOptions s (length (featureColumns s))) F L (uniqueLabels L) [] of
          Inl e \<Rightarrow> Pending (s\<lparr>status := trainingStatus\<rparr>)
        | Inr trainedModels \<Rightarrow>
            Settled
              (s\<lparr>status := trainingStatus,
                 models := Some trainedModels,
                 trainingAccuracy :=
                   Some (js_div (Fin (real (countCorrect (map (decideLabel lib trainedModels) F) L)))
                           (Fin (real (length F)))),
                 status := ''Model trained'',
                 prediction := [],
                 trainingError := None\<rparr>))"
proof -
  from computeFeaturesAndLabels_shape [OF assms] obtain f F' where
    F: "F = f # F'" and f: "length f = length (featureColumns s)" and ne: "featureColumns s \<noteq> []"
    by blast
  show ?thesis
    using F f ne by (simp add: trainModel_def assms Let_def length_uniqueLabels split: sum.splits)
qed

lemma trainModel_throw_never_settles:
  assumes "computeFeaturesAndLabels s = Inr (F, L)" and "2 \<le> card (set L)"
    and "trainLoop lib (svmOptions s (length (featureColumns s))) F L (uniqueLabels L) [] = Inl e"
  shows "trainModel lib s = Pending (s\<lparr>status := trainingStatus\<rparr>)"
  using assms(2,3) by (simp add: trainModel_after_extraction [OF assms(1)])

text \<open>
  The model a run stores depends on the state only through the extracted matrix and
  labels, the kernel, gamma and the cost, the library being a function of its arguments.
\<close>

lemma trainModel_same_inputs:
  assumes "computeFeaturesAndLabels s1 = Inr (F, L)" and "computeFeaturesAndLabels s2 = Inr (F, L)"
    and "kernel s1 = kernel s2" and "gamma s1 = gamma s2" and "cost s1 = cost s2"
    and "trainModel lib s1 = Settled t1" and "trainModel lib s2 = Settled t2"
  shows "models t1 = models t2"
proof -
  from computeFeaturesAndLabels_shape [OF assms(1)] computeFeaturesAndLabels_shape [OF assms(2)]
  have "length (featureColumns s1) = length (featureColumns s2)" by auto
  then have o: "svmOptions s1 (length (featureColumns s1)) = svmOptions s2 (length (featureColumns s2))"
    using assms(3-5) by (simp add: svmOptions_def)
  show ?thesis
    using assms(6,7) o
    by (auto simp: trainModel_after_extraction [OF assms(1)] trainModel_after_extraction [OF assms(2)]
        trainFailed_def split: if_splits sum.splits)
qed

text \<open>
  The model stored when every per-label training step returns, and the error stored
  when the labels are too few.
\<close>

lemma trainModel_one_vs_rest:
  assumes "computeFeaturesAndLabels s = Inr (features, labels)"
  shows "(card (set labels) < 2 \<longrightarrow>
            (\<exists>s'. trainModel lib s = Settled s' \<and> status s' = ''Training failed''
                  \<and> trainingError s' = Some ''At least two unique labels are required.''
                  \<and> models s' = None))
         \<and> (2 \<le> card (set labels)
            \<and> (\<forall>t \<in> set labels. \<exists>h.
                  train lib (svmOptions s (length (featureColumns s))) features
                    (binaryLabels labels t) = Inr h) \<longrightarrow>
            (\<exists>s' ms. trainModel lib s = Settled s' \<and> models s' = Some ms
                  \<and> status s' = ''Model trained''
                  \<and> length ms = card (set labels)
                  \<and> map label ms = uniqueLabels labels
                  \<and> distinct (map label ms)
                  \<and> set (map label ms) = set labels
                  \<and> sorted_wrt (\<lambda>a b. firstIndex labels a < firstIndex labels b) (map label ms)
                  \<and> (\<forall>m \<in> set ms.
                        train lib (svmOptions s (length (featureColumns s))) features
                          (binaryLabels labels (label m)) = Inr (svm m))))"
proof (intro conjI impI)
  assume "card (set labels) < 2"
  then have "trainModel lib s =
      Settled (trainFailed (Error ''At least two unique labels are required.'') s)"
    by (simp add: trainModel_after_extraction [OF assms])
  then show "\<exists>s'. trainModel lib s = Settled s' \<and> status s' = ''Training failed''
                  \<and> trainingError s' = Some ''At least two unique labels are required.''
                  \<and> models s' = None"
    by (simp add: trainFailed_def)
next
  let ?opts = "svmOptions s (length (featureColumns s))"
  assume a: "2 \<le> card (set labels)
            \<and> (\<forall>t \<in> set labels. \<exists>h. train lib ?opts features (binaryLabels labels t) = Inr h)"
  then have "\<forall>t \<in> set (uniqueLabels labels). \<exists>h.
               train lib ?opts features (binaryLabels labels t) = Inr h"
    by (simp add: set_uniqueLabels)
  from trainLoop_succeeds [OF this, of "[]"] obtain ms where
    tl: "trainLoop lib ?opts features labels (uniqueLabels labels) [] = Inr ms"
    and lab: "map label ms = uniqueLabels labels"
    and tr: "\<forall>m \<in> set ms. train lib ?opts features (binaryLabels labels (label m)) = Inr (svm m)"
    by auto
  let ?s' = "s\<lparr>status := trainingStatus,
                 models := Some ms,
                 trainingAccuracy :=
                   Some (js_div (Fin (real (countCorrect (map (decideLabel lib ms) features) labels)))
                           (Fin (real (length features)))),
                 status := ''Model trained'',
                 prediction := [],
                 trainingError := None\<rparr>"
  have run: "trainModel lib s = Settled ?s'"
    using a tl by (simp add: trainModel_after_extraction [OF assms])
  have len: "length ms = card (set labels)"
    using lab length_uniqueLabels [of labels] by (metis length_map)
  have "trainModel lib s = Settled ?s' \<and> models ?s' = Some ms
                  \<and> status ?s' = ''Model trained''
                  \<and> length ms = card (set labels)
                  \<and> map label ms = uniqueLabels labels
                  \<and> distinct (map label ms)
                  \<and> set (map label ms) = set labels
                  \<and> sorted_wrt (\<lambda>a b. firstIndex labels a < firstIndex labels b) (map label ms)
                  \<and> (\<forall>m \<in> set ms. train lib ?opts features (binaryLabels labels (label m)) = Inr (svm m))"
    using run len lab tr distinct_uniqueLabels [of labels] set_uniqueLabels [of labels]
      uniqueLabels_first_seen [of labels]
    by simp
  then show "\<exists>s' ms. trainModel lib s = Settled s' \<and> models s' = Some ms
                  \<and> status s' = ''Model trained''
                  \<and> length ms = card (set labels)
                  \<and> map label ms = uniqueLabels labels
                  \<and> distinct (map label ms)
                  \<and> set (map label ms) = set labels
                  \<and> sorted_wrt (\<lambda>a b. firstIndex labels a < firstIndex labels b) (map label ms)
                  \<and> (\<forall>m \<in> set ms. train lib ?opts features (binaryLabels labels (label m)) = Inr (svm m))"
    by (intro exI [of _ ?s'] exI [of _ ms])
qed

text \<open>
  Claim C3 as stated fails: with all-numeric features and two distinct labels, a
  training step that throws leaves a run that neither reports too few labels nor stores
  a model.
\<close>

theorem C3_counterexample:
  "computeFeaturesAndLabels threeRowState
     = Inr ([[Fin 1], [Fin 2], [Fin 3]], [''B'', ''A'', ''B''])
   \<and> card (set [''B'', ''A'', ''B'']) = 2
   \<and> trainModel failingLibrary threeRowState
     = Pending (threeRowState\<lparr>status := trainingStatus\<rparr>)
   \<and> models (threeRowState\<lparr>status := trainingStatus\<rparr>) = None"
proof -
  let ?F = "[[Fin 1], [Fin 2], [Fin 3]]" and ?L = "[''B'', ''A'', ''B'']"
  have h: "computeFeaturesAndLabels threeRowState = Inr (?F, ?L)"
    by (simp add: computeFeaturesAndLabels_def threeRowState_def exampleState_def
        exampleRow_def parse_examples String_def)
  have c: "card (set ?L) = 2" by (simp add: card_insert_if)
  have u: "uniqueLabels ?L = [''B'', ''A'']" by (simp add: uniqueLabels_def set_add_def)
  have fc: "length (featureColumns threeRowState) = 1"
    by (simp add: threeRowState_def exampleState_def)
  have t: "trainLoop failingLibrary (svmOptions threeRowState 1) ?F ?L [''B'', ''A''] []
             = Inl (Error ''solver failed'')"
    by (simp add: failingLibrary_def binaryLabels_def)
  have c2: "2 \<le> card (set ?L)" using c by simp
  have p: "trainModel failingLibrary threeRowState
             = Pending (threeRowState\<lparr>status := trainingStatus\<rparr>)"
    using trainModel_throw_never_settles [OF h c2, of failingLibrary] t by (simp add: u fc)
  have m: "models (threeRowState\<lparr>status := trainingStatus\<rparr>) = None"
    by (simp add: threeRowState_def exampleState_def initialState_def)
  show ?thesis by (intro conjI h c p m)
qed

text \<open>
  Claim C3, amended. When extraction has returned a feature matrix and a label vector,
  training fails with the error "At least two unique labels are required." if the label
  vector has fewer than two distinct labels; otherwise, provided every per-label
  training step returns (the queries of the accuracy pass returning numbers, as they
  are declared to), it stores a model whose pairs are as many as the distinct labels,
  carry these labels in the order of their first occurrence, and hold each the
  classifier trained on the binary vector that maps the entries equal to its label to +1
  and all others to -1.
\<close>

theorem C3_one_classifier_per_label:
  assumes "computeFeaturesAndLabels s = Inr (features, labels)"
  shows "(card (set labels) < 2 \<longrightarrow>
            (\<exists>s'. trainModel lib s = Settled s' \<and> status s' = ''Training failed''
                  \<and> trainingError s' = Some ''At least two unique labels are required.''
                  \<and> models s' = None))
         \<and> (2 \<le> card (set labels)
            \<and> (\<forall>t \<in> set labels. \<exists>h.
                  train lib (svmOptions s (length (featureColumns s))) features
                    (map (\<lambda>v. if v = t then Fin 1 else Fin (- 1)) labels) = Inr h) \<longrightarrow>
            (\<exists>s' ms. trainModel lib s = Settled s' \<and> models s' = Some ms
                  \<and> status s' = ''Model trained''
                  \<and> length ms = card (set labels)
                  \<and> map label ms = uniqueLabels labels
                  \<and> distinct (map label ms)
                  \<and> set (map label ms) = set labels
                  \<and> sorted_wrt (\<lambda>a b. firstIndex labels a < firstIndex labels b) (map label ms)
                  \<and> (\<forall>m \<in> set ms.
                        train lib (svmOptions s (length (featureColumns s))) features
                          (map (\<lambda>v. if v = label m then Fin 1 else Fin (- 1)) labels)
                          = Inr (svm m))))"
  using trainModel_one_vs_rest [OF assms, of lib] by (simp only: binaryLabels_def)

theorem C3_one_classifier_per_label_witness:
  "computeFeaturesAndLabels threeRowState
     = Inr ([[Fin 1], [Fin 2], [Fin 3]], [''B'', ''A'', ''B''])
   \<and> (\<exists>s' ms. trainModel recordingLibrary threeRowState = Settled s'
        \<and> models s' = Some ms \<and> length ms = 2 \<and> map label ms = [''B'', ''A'']
        \<and> map svm ms = [[Fin 1, Fin (- 1), Fin 1], [Fin (- 1), Fin 1, Fin (- 1)]])"
proof -
  let ?s = "threeRowState"
  let ?F = "[[Fin 1], [Fin 2], [Fin 3]]" and ?L = "[''B'', ''A'', ''B'']"
  have h: "computeFeaturesAndLabels ?s = Inr (?F, ?L)"
    by (simp add: computeFeaturesAndLabels_def threeRowState_def exampleState_def
        exampleRow_def parse_examples String_def)
  have c: "card (set ?L) = 2" by (simp add: card_insert_if)
  have u: "uniqueLabels ?L = [''B'', ''A'']" by (simp add: uniqueLabels_def set_add_def)
  have t: "\<forall>t \<in> set ?L. \<exists>h. train recordingLibrary (svmOptions ?s (length (featureColumns ?s))) ?F
                    (map (\<lambda>v. if v = t then Fin 1 else Fin (- 1)) ?L) = Inr h"
    by (simp add: recordingLibrary_def)
  from C3_one_classifier_per_label [OF h, of recordingLibrary] c t
  obtain s' ms where r: "trainModel recordingLibrary ?s = Settled s'" "models s' = Some ms"
    "length ms = 2" "map label ms = [''B'', ''A'']"
    "\<forall>m \<in> set ms. train recordingLibrary (svmOptions ?s (length (featureColumns ?s))) ?F
                          (map (\<lambda>v. if v = label m then Fin 1 else Fin (- 1)) ?L) = Inr (svm m)"
    unfolding u by auto
  from r(3) obtain m1 m2 where ms: "ms = [m1, m2]"
    by (cases ms; cases "tl ms") auto
  with r(4,5) have v: "map svm ms = [[Fin 1, Fin (- 1), Fin 1], [Fin (- 1), Fin 1, Fin (- 1)]]"
    by (auto simp: recordingLibrary_def)
  have "\<exists>s' ms. trainModel recordingLibrary ?s = Settled s'
        \<and> models s' = Some ms \<and> length ms = 2 \<and> map label ms = [''B'', ''A'']
        \<and> map svm ms = [[Fin 1, Fin (- 1), Fin 1], [Fin (- 1), Fin 1, Fin (- 1)]]"
    by (intro exI [of _ s'] exI [of _ ms] conjI r(1-4) v)
  with h show ?thesis by (intro conjI)
qed

text \<open>
  Claim C5, evaluated where a per-label training step throws. With two labels, training
  of the first succeeding and training of the second throwing, the run never leaves its
  await: the status stays at the text set before it, no error message is stored and the
  block that handles failures is not run. No model is stored either.
\<close>

theorem C5_throw_in_timer_callback:
  "computeFeaturesAndLabels twoLabelState = Inr ([[Fin 1], [Fin (- 1)]], [''A'', ''B''])
   \<and> trainLoop failingLibrary (svmOptions twoLabelState 1)
       [[Fin 1], [Fin (- 1)]] [''A'', ''B''] [''A'', ''B''] []
     = Inl (Error ''solver failed'')
   \<and> trainModel failingLibrary twoLabelState
     = Pending (twoLabelState\<lparr>status := trainingStatus\<rparr>)
   \<and> trainingError (twoLabelState\<lparr>status := trainingStatus\<rparr>) = None
   \<and> models (twoLabelState\<lparr>status := trainingStatus\<rparr>) = None
   \<and> trainingStatus \<noteq> ''Training failed''"
proof -
  let ?s = "twoLabelState"
  have h: "computeFeaturesAndLabels ?s = Inr ([[Fin 1], [Fin (- 1)]], [''A'', ''B''])"
    by (simp add: computeFeaturesAndLabels_def twoLabelState_def exampleState_def
        exampleRow_def parse_examples String_def)
  have u: "uniqueLabels [''A'', ''B''] = [''A'', ''B'']" by (simp add: uniqueLabels_def set_add_def)
  have fc: "length (featureColumns ?s) = 1" by (simp add: twoLabelState_def exampleState_def)
  have t: "trainLoop failingLibrary (svmOptions ?s 1) [[Fin 1], [Fin (- 1)]] [''A'', ''B'']
             [''A'', ''B''] [] = Inl (Error ''solver failed'')"
    by (simp add: failingLibrary_def binaryLabels_def)
  have c: "2 \<le> card (set [''A'', ''B''])" by (simp add: card_insert_if)
  have p: "trainModel failingLibrary ?s = Pending (?s\<lparr>status := trainingStatus\<rparr>)"
    using trainModel_throw_never_settles [OF h c, of failingLibrary] t by (simp add: u fc)
  have e: "trainingError (?s\<lparr>status := trainingStatus\<rparr>) = None"
    by (simp add: twoLabelState_def exampleState_def initialState_def)
  have m: "models (?s\<lparr>status := trainingStatus\<rparr>) = None"
    by (simp add: twoLabelState_def exampleState_def initialState_def)
  have n: "trainingStatus \<noteq> ''Training failed''" by (simp add: trainingStatus_def)
  show ?thesis by (intro conjI h t p e m n)
qed

end
